theory Spec2Isabelle
  imports Main
begin

section \<open>Data model of \<^verbatim>\<open>sql/platform/tasks/common/tasks.ts\<close>\<close>

text \<open>
  Optional fields (\<^verbatim>\<open>f?: T\<close>) are \<open>T option\<close>, with \<open>None\<close> for
  \<^verbatim>\<open>undefined\<close>. The icon path object \<^verbatim>\<open>{ dark: string; light?: string; }\<close> is one
  record; \<^verbatim>\<open>ITaskOptions\<close> asks for a \<^verbatim>\<open>light\<close> that is present, which is the
  case \<open>light = Some l\<close> of the same record.
\<close>

record IconPath =
  dark :: string
  light :: "string option"

text \<open>
  \<^verbatim>\<open>types.TypeConstraint\<close> and \<^verbatim>\<open>ContextKeyExpr\<close> are types of the host; the file
  stores values of them and never looks inside.
\<close>

typedecl TypeConstraint
typedecl ContextKeyExpr

record TaskArgument =
  arg_name :: string
  arg_description :: "string option"
  arg_constraint :: "TypeConstraint option"

record ITaskHandlerDescription =
  description :: string
  args :: "TaskArgument list"
  returns :: "string option"

record ITaskOptions =
  opts_id :: string
  opts_title :: string
  opts_iconPath :: IconPath
  opts_description :: "ITaskHandlerDescription option"
  opts_iconClass :: "string option"

text \<open>
  \<^verbatim>\<open>ITask\<close>. The handler is a function of the host's accessor and connection profile;
  its type is the parameter \<open>'h\<close>.
\<close>

record 'h ITask =
  itask_id :: string
  handler :: 'h
  precondition :: "ContextKeyExpr option"
  itask_description :: "ITaskHandlerDescription option"
  itask_iconClass :: "string option"
  itask_iconPath :: "IconPath option"
  itask_title :: "string option"

text \<open>
  \<^verbatim>\<open>ICommandAction\<close> is declared by the host (\<^verbatim>\<open>vs/platform/actions/common/actions\<close>);
  the record has the three fields that this file writes and reads.
\<close>

record ICommandAction =
  action_iconPath :: "IconPath option"
  action_id :: string
  action_title :: string

text \<open>
  The abstract class \<^verbatim>\<open>Task\<close>: its fields, and the abstract method
  \<^verbatim>\<open>runTask\<close> of the subclass as the field \<open>runTask\<close>. The field
  \<^verbatim>\<open>iconPathDark\<close> is declared and never assigned.
\<close>

record 'h Task =
  task_id :: string
  task_title :: string
  task_iconPathDark :: "string option"
  task_iconPath :: IconPath
  task_iconClass :: "string option"
  task_description :: "ITaskHandlerDescription option"
  runTask :: 'h

definition Task_constructor :: "'h \<Rightarrow> ITaskOptions \<Rightarrow> 'h Task" where
  "Task_constructor run opts =
     \<lparr> task_id = opts_id opts,
       task_title = opts_title opts,
       task_iconPathDark = None,
       task_iconPath = opts_iconPath opts,
       task_iconClass = opts_iconClass opts,
       task_description = opts_description opts,
       runTask = run \<rparr>"

definition toITask :: "'h Task \<Rightarrow> 'h ITask" where
  "toITask this =
     \<lparr> itask_id = task_id this,
       handler = runTask this,
       precondition = None,
       itask_description = task_description this,
       itask_iconClass = task_iconClass this,
       itask_iconPath = Some (task_iconPath this),
       itask_title = Some (task_title this) \<rparr>"

definition toCommandAction :: "'h Task \<Rightarrow> ICommandAction" where
  "toCommandAction this =
     \<lparr> action_iconPath = Some (task_iconPath this),
       action_id = task_id this,
       action_title = task_title this \<rparr>"

section \<open>The host\<close>

text \<open>
  Two functions of the host that the file calls and whose code lies outside it are
  parameters of the model: the string that \<^verbatim>\<open>ids.nextId()\<close> returns, as a function
  of the number of calls made before (\<^verbatim>\<open>ids\<close> is private to the module, so
  nothing else advances it), and \<^verbatim>\<open>URI.file(path).toString()\<close>.
\<close>

record host =
  nextIdName :: "nat \<Rightarrow> string"
  fileUri :: "string \<Rightarrow> string"

section \<open>The state\<close>

text \<open>
  Arrays are objects: an array lives in the store at an address, and a variable
  of array type holds the address. \<^verbatim>\<open>this._tasks\<close> is the field \<open>tasks\<close>.
  The two maps are never handed out, and are kept by value.
\<close>

type_synonym addr = nat

text \<open>The first argument of \<^verbatim>\<open>registerTask\<close>, of type \<^verbatim>\<open>string | ITask\<close>.\<close>

datatype 'h idOrTask = IsString string | IsTask "'h ITask"

text \<open>
  Modelled from the spec: \<^verbatim>\<open>CommandsRegistry\<close>, \<^verbatim>\<open>MenuRegistry\<close>,
  \<^verbatim>\<open>createCSSRule\<close> and the listeners of the \<^verbatim>\<open>Emitter\<close> are code of the host,
  "treated as external collaborators". The state keeps, for each of them, the calls
  made to it, in order. A registration at \<^verbatim>\<open>CommandsRegistry\<close> is known to its
  disposable by its position in the calls. A delivery of \<^verbatim>\<open>onTaskRegistered\<close> is
  kept with the ids that \<^verbatim>\<open>this._tasks\<close> holds when it is fired.
\<close>

datatype 'h command_call =
    RegisterCommandId string "'h option"
  | RegisterCommand "'h ITask"
  | DisposeCommand nat

record 'h world =
  store :: "addr \<Rightarrow> string list"
  nextAddr :: addr
  tasks :: addr
  fired :: "(string \<times> string list) list"
  taskIdToIconClassNameMap :: "string \<rightharpoonup> string"
  taskIdToCommandActionMap :: "string \<rightharpoonup> ICommandAction"
  idsUsed :: nat
  cssRules :: "(string \<times> string) list"
  commands :: "'h command_call list"
  menuCommands :: "ICommandAction list"

text \<open>
  The state when the module has been loaded: \<^verbatim>\<open>new Array<string>()\<close> is the array
  at address 0, the maps are empty, no id has been generated.
\<close>

definition initial :: "'h world" where
  "initial =
     \<lparr> store = (\<lambda>_. []), nextAddr = 1, tasks = 0, fired = [],
       taskIdToIconClassNameMap = Map.empty, taskIdToCommandActionMap = Map.empty,
       idsUsed = 0, cssRules = [], commands = [], menuCommands = [] \<rparr>"

text \<open>The \<^verbatim>\<open>_tasks\<close> array is an allocated object.\<close>

definition allocated :: "'h world \<Rightarrow> bool" where
  "allocated w = (tasks w < nextAddr w)"

subsection \<open>JavaScript values and arrays\<close>

text \<open>A string in a condition: \<^verbatim>\<open>undefined\<close> and the empty string are falsy.\<close>

definition truthy :: "string option \<Rightarrow> bool" where
  "truthy s = (case s of None \<Rightarrow> False | Some v \<Rightarrow> v \<noteq> [])"

text \<open>\<^verbatim>\<open>a || b\<close> on an optional string and a string.\<close>

definition or_else :: "string option \<Rightarrow> string \<Rightarrow> string" where
  "or_else a b = (case a of None \<Rightarrow> b | Some v \<Rightarrow> if v = [] then b else v)"

definition array_new :: "string list \<Rightarrow> 'h world \<Rightarrow> addr \<times> 'h world" where
  "array_new xs w =
     (nextAddr w, w\<lparr>store := (store w)(nextAddr w := xs), nextAddr := Suc (nextAddr w)\<rparr>)"

definition push :: "addr \<Rightarrow> string \<Rightarrow> 'h world \<Rightarrow> 'h world" where
  "push a x w = w\<lparr>store := (store w)(a := store w a @ [x])\<rparr>"

text \<open>\<^verbatim>\<open>indexOf\<close>: the first index of an equal element, or -1.\<close>

fun indexOfFrom :: "string list \<Rightarrow> string \<Rightarrow> int \<Rightarrow> int" where
  "indexOfFrom [] x k = -1"
| "indexOfFrom (y # ys) x k = (if y = x then k else indexOfFrom ys x (k + 1))"

definition indexOf :: "string list \<Rightarrow> string \<Rightarrow> int" where
  "indexOf xs x = indexOfFrom xs x 0"

text \<open>
  \<^verbatim>\<open>splice(start, deleteCount)\<close> with \<open>start \<ge> 0\<close>: the elements are removed from
  the array in place, and the result is a new array that holds the removed elements.
\<close>

definition splice :: "addr \<Rightarrow> nat \<Rightarrow> nat \<Rightarrow> 'h world \<Rightarrow> addr \<times> 'h world" where
  "splice a start deleteCount w =
     (let xs = store w a;
          removed = take deleteCount (drop start xs);
          w1 = w\<lparr>store := (store w)(a := take start xs @ drop (start + deleteCount) xs)\<rparr>
      in array_new removed w1)"

text \<open>\<^verbatim>\<open>slice(begin)\<close> with \<open>begin \<ge> 0\<close>: a new array, the elements from \<open>begin\<close> on.\<close>

definition slice :: "addr \<Rightarrow> nat \<Rightarrow> 'h world \<Rightarrow> addr \<times> 'h world" where
  "slice a begin w = array_new (drop begin (store w a)) w"

subsection \<open>Calls to the host\<close>

text \<open>
  Modelled from the spec: the code of \<^verbatim>\<open>CommandsRegistry.registerCommand\<close> and of the
  disposable it returns, of \<^verbatim>\<open>MenuRegistry.addCommand\<close>, of \<^verbatim>\<open>createCSSRule\<close>, of
  \<^verbatim>\<open>IdGenerator.nextId\<close> and of \<^verbatim>\<open>Emitter.fire\<close> is not in this file; they are
  collaborators of the host. A call appends to the calls kept for the collaborator;
  \<^verbatim>\<open>ids.nextId()\<close> counts the ids generated and names the new one by the host's
  \<open>nextIdName\<close>.
\<close>

definition CommandsRegistry_registerCommand ::
  "'h command_call \<Rightarrow> 'h world \<Rightarrow> nat \<times> 'h world" where
  "CommandsRegistry_registerCommand c w =
     (length (commands w), w\<lparr>commands := commands w @ [c]\<rparr>)"

definition command_dispose :: "nat \<Rightarrow> 'h world \<Rightarrow> 'h world" where
  "command_dispose n w = w\<lparr>commands := commands w @ [DisposeCommand n]\<rparr>"

definition MenuRegistry_addCommand :: "ICommandAction \<Rightarrow> 'h world \<Rightarrow> 'h world" where
  "MenuRegistry_addCommand a w = w\<lparr>menuCommands := menuCommands w @ [a]\<rparr>"

definition createCSSRule :: "string \<Rightarrow> string \<Rightarrow> 'h world \<Rightarrow> 'h world" where
  "createCSSRule selector cssText w = w\<lparr>cssRules := cssRules w @ [(selector, cssText)]\<rparr>"

definition ids_nextId :: "host \<Rightarrow> 'h world \<Rightarrow> string \<times> 'h world" where
  "ids_nextId h w = (nextIdName h (idsUsed w), w\<lparr>idsUsed := Suc (idsUsed w)\<rparr>)"

definition fire :: "string \<Rightarrow> 'h world \<Rightarrow> 'h world" where
  "fire ident w = w\<lparr>fired := fired w @ [(ident, store w (tasks w))]\<rparr>"

section \<open>TaskRegistry\<close>

text \<open>
  The object that \<^verbatim>\<open>registerTask\<close> returns: its \<^verbatim>\<open>dispose\<close> closes over
  \<^verbatim>\<open>id\<close> and over the disposable of \<^verbatim>\<open>CommandsRegistry\<close>.
\<close>

record TaskDisposable =
  disp_id :: string
  disp_command :: nat

definition registerTask ::
  "'h idOrTask \<Rightarrow> 'h option \<Rightarrow> 'h world \<Rightarrow> TaskDisposable \<times> 'h world" where
  "registerTask idOrTask hdl w =
     (let (disposable, ident, w3) =
            (case idOrTask of
               IsString s \<Rightarrow>
                 (let (d, w') = CommandsRegistry_registerCommand (RegisterCommandId s hdl) w
                  in (d, s, w'))
             | IsTask t \<Rightarrow>
                 (let w1 = (if truthy (itask_iconClass t)
                            then w\<lparr>taskIdToIconClassNameMap :=
                                     (taskIdToIconClassNameMap w)
                                       (itask_id t \<mapsto> the (itask_iconClass t))\<rparr>
                            else w);
                      w2 = (if itask_iconPath t \<noteq> None \<and> truthy (itask_title t)
                            then w1\<lparr>taskIdToCommandActionMap :=
                                      (taskIdToCommandActionMap w1)
                                        (itask_id t \<mapsto>
                                           \<lparr> action_iconPath = itask_iconPath t,
                                             action_id = itask_id t,
                                             action_title = the (itask_title t) \<rparr>)\<rparr>
                            else w1);
                      (d, w') = CommandsRegistry_registerCommand (RegisterCommand t) w2
                  in (d, itask_id t, w')));
          w4 = push (tasks w3) ident w3;
          w5 = fire ident w4
      in (\<lparr> disp_id = ident, disp_command = disposable \<rparr>, w5))"

definition dispose :: "TaskDisposable \<Rightarrow> 'h world \<Rightarrow> 'h world" where
  "dispose d w =
     (let index = indexOf (store w (tasks w)) (disp_id d);
          w1 = (if index \<ge> 0
                then (let (removed, w') = splice (tasks w) (nat index) 1 w
                      in w'\<lparr>tasks := removed\<rparr>)
                else w)
      in command_dispose (disp_command d) w1)"

definition getOrCreateTaskIconClassName ::
  "host \<Rightarrow> ICommandAction \<Rightarrow> 'h world \<Rightarrow> string option \<times> 'h world" where
  "getOrCreateTaskIconClassName h item w =
     (if taskIdToIconClassNameMap w (action_id item) \<noteq> None
      then (taskIdToIconClassNameMap w (action_id item), w)
      else (case action_iconPath item of
              None \<Rightarrow> (None, w)
            | Some p \<Rightarrow>
                (let (iconClass, w1) = ids_nextId h w;
                     w2 = createCSSRule (''.icon.'' @ iconClass)
                            (''background-image: url('' @ [CHR 0x22]
                               @ fileUri h (or_else (light p) (dark p)) @ [CHR 0x22] @ '')'') w1;
                     w3 = createCSSRule
                            (''.vs-dark .icon.'' @ iconClass @ '', .hc-black .icon.'' @ iconClass)
                            (''background-image: url('' @ [CHR 0x22]
                               @ fileUri h (dark p) @ [CHR 0x22] @ '')'') w2
                 in (Some iconClass,
                     w3\<lparr>taskIdToIconClassNameMap :=
                          (taskIdToIconClassNameMap w3)(action_id item \<mapsto> iconClass)\<rparr>))))"

definition getTasks :: "'h world \<Rightarrow> addr \<times> 'h world" where
  "getTasks w = slice (tasks w) 0 w"

definition getCommandActionById :: "string \<Rightarrow> 'h world \<Rightarrow> ICommandAction option" where
  "getCommandActionById taskId w = taskIdToCommandActionMap w taskId"

section \<open>Task.registerTask\<close>

text \<open>The parameter \<^verbatim>\<open>showInCommandPalette\<close> is optional and defaults to true.\<close>

definition Task_registerTask ::
  "'h Task \<Rightarrow> bool option \<Rightarrow> 'h world \<Rightarrow> TaskDisposable \<times> 'h world" where
  "Task_registerTask this showInCommandPalette w =
     (let w1 = (if (case showInCommandPalette of None \<Rightarrow> True | Some b \<Rightarrow> b)
                then MenuRegistry_addCommand (toCommandAction this) w
                else w)
      in registerTask (IsTask (toITask this)) None w1)"

section \<open>Callers\<close>

text \<open>The variable \<^verbatim>\<open>id\<close> of \<^verbatim>\<open>registerTask\<close>: the id that a call registers.\<close>

definition registered_id :: "'h idOrTask \<Rightarrow> string" where
  "registered_id x = (case x of IsString s \<Rightarrow> s | IsTask t \<Rightarrow> itask_id t)"

text \<open>The ids in the array that \<^verbatim>\<open>getTasks()\<close> returns.\<close>

definition getTasks_ids :: "'h world \<Rightarrow> string list" where
  "getTasks_ids w = (case getTasks w of (a, w') \<Rightarrow> store w' a)"

text \<open>
  A caller that holds an array changes it in place (\<^verbatim>\<open>push\<close>, \<^verbatim>\<open>splice\<close>,
  \<^verbatim>\<open>sort\<close>, an assignment to an index or to \<^verbatim>\<open>length\<close>): the array at the
  address gets new contents, a function of the old ones.
\<close>

definition array_mutate :: "addr \<Rightarrow> (string list \<Rightarrow> string list) \<Rightarrow> 'h world \<Rightarrow> 'h world" where
  "array_mutate a f w = w\<lparr>store := (store w)(a := f (store w a))\<rparr>"

text \<open>
  The calls that the rest of the program can make, and a sequence of them run from a
  state. Results are dropped: a sequence stands for what happens between one call and
  a later one.
\<close>

datatype 'h call =
    CallRegisterTask "'h idOrTask" "'h option"
  | CallTaskRegisterTask "'h Task" "bool option"
  | CallDispose TaskDisposable
  | CallGetOrCreateTaskIconClassName ICommandAction
  | CallGetTasks

fun exec :: "host \<Rightarrow> 'h world \<Rightarrow> 'h call \<Rightarrow> 'h world" where
  "exec h w (CallRegisterTask x hdl) = snd (registerTask x hdl w)"
| "exec h w (CallTaskRegisterTask t b) = snd (Task_registerTask t b w)"
| "exec h w (CallDispose d) = dispose d w"
| "exec h w (CallGetOrCreateTaskIconClassName item) = snd (getOrCreateTaskIconClassName h item w)"
| "exec h w CallGetTasks = snd (getTasks w)"

definition run :: "host \<Rightarrow> 'h call list \<Rightarrow> 'h world \<Rightarrow> 'h world" where
  "run h calls w = foldl (exec h) w calls"

text \<open>
  A call that registers, under the id \<open>i\<close>, a task whose icon class is non-empty and is
  not \<open>c\<close>.
\<close>

fun registers_other_iconClass :: "string \<Rightarrow> string \<Rightarrow> 'h call \<Rightarrow> bool" where
  "registers_other_iconClass i c (CallRegisterTask (IsTask t) hdl) =
     (itask_id t = i \<and> truthy (itask_iconClass t) \<and> itask_iconClass t \<noteq> Some c)"
| "registers_other_iconClass i c (CallTaskRegisterTask t b) =
     (task_id t = i \<and> truthy (task_iconClass t) \<and> task_iconClass t \<noteq> Some c)"
| "registers_other_iconClass i c other = False"

section \<open>The extension manifest\<close>

datatype json =
    JString string
  | JBool bool
  | JArray "json list"
  | JObject "(string \<times> json) list"

definition manifest :: json where
  "manifest = JObject
     [ (''name'', JString ''import''),
       (''displayName'', JString ''SQL Server Import''),
       (''description'', JString ''Imports data from a flat file.''),
       (''version'', JString ''0.0.2''),
       (''publisher'', JString ''Microsoft''),
       (''preview'', JBool True),
       (''engines'', JObject
          [ (''vscode'', JString ''^1.25.0''),
            (''sqlops'', JString ''*'') ]),
       (''license'', JString ''https://raw.githubusercontent.com/Microsoft/sqlopsstudio/master/LICENSE.txt''),
       (''icon'', JString ''images/sqlserver.png''),
       (''aiKey'', JString ''AIF-5574968e-856d-40d2-af67-c89a14e76412''),
       (''activationEvents'', JArray [ JString ''*'' ]),
       (''main'', JString ''./out/main''),
       (''repository'', JObject
          [ (''type'', JString ''git''),
            (''url'', JString ''https://github.com/Microsoft/sqlopsstudio.git'') ]),
       (''extensionDependencies'', JArray [ JString ''Microsoft.mssql'' ]),
       (''contributes'', JObject
          [ (''commands'', JArray
               [ JObject
                   [ (''command'', JString ''flatFileImport.start''),
                     (''title'', JString ''Import wizard''),
                     (''category'', JString ''Flat File Import''),
                     (''icon'', JObject
                        [ (''light'', JString ''./images/light_icon.svg''),
                          (''dark'', JString ''./images/dark_icon.svg'') ]) ] ]),
            (''keybindings'', JArray
               [ JObject
                   [ (''command'', JString ''flatFileImport.start''),
                     (''key'', JString ''ctrl+i''),
                     (''mac'', JString ''ctrl+i'') ] ]),
            (''dashboard.tabs'', JArray
               [ JObject
                   [ (''id'', JString ''flat-file-import''),
                     (''title'', JString ''Flat File Import''),
                     (''description'', JString ''The flat file importer.''),
                     (''container'', JObject
                        [ (''flat-file-import-container'', JObject []) ]) ] ]),
            (''dashboard.containers'', JArray
               [ JObject
                   [ (''id'', JString ''flat-file-import-container''),
                     (''container'', JObject
                        [ (''widgets-container'', JArray
                             [ JObject
                                 [ (''name'', JString ''Tasks''),
                                   (''widget'', JObject
                                      [ (''tasks-widget'', JArray
                                           [ JString ''flatFileImport.start'' ]) ]) ] ]) ]) ] ]),
            (''menus'', JObject
               [ (''objectExplorer/item/context'', JArray
                    [ JObject
                        [ (''command'', JString ''flatFileImport.start''),
                          (''when'', JString ''connectionProvider == MSSQL && nodeType && nodeType == Database''),
                          (''group'', JString ''import'') ] ]) ]) ]),
       (''dependencies'', JObject
          [ (''dataprotocol-client'', JString ''github:Microsoft/sqlops-dataprotocolclient#0.2.7''),
            (''opener'', JString ''^1.4.3''),
            (''service-downloader'', JString ''github:anthonydresser/service-downloader#0.1.4''),
            (''vscode-extension-telemetry'', JString ''^0.0.5''),
            (''vscode-nls'', JString ''^3.2.1'') ]),
       (''devDependencies'', JObject []) ]"

text \<open>Reading the manifest: a member of an object, a path of members, the elements of an array.\<close>

definition member_of :: "string \<Rightarrow> json \<Rightarrow> json option" where
  "member_of k j = (case j of JObject kvs \<Rightarrow> map_of kvs k | _ \<Rightarrow> None)"

fun at_path :: "string list \<Rightarrow> json \<Rightarrow> json option" where
  "at_path [] j = Some j"
| "at_path (k # ks) j = (case member_of k j of None \<Rightarrow> None | Some j' \<Rightarrow> at_path ks j')"

definition elements :: "json option \<Rightarrow> json list" where
  "elements j = (case j of Some (JArray xs) \<Rightarrow> xs | _ \<Rightarrow> [])"

text \<open>The commands that the manifest names at the four contribution points.\<close>

definition contributed_commands :: "json \<Rightarrow> json option list" where
  "contributed_commands m = map (member_of ''command'') (elements (at_path [''contributes'', ''commands''] m))"

definition keybinding_commands :: "json \<Rightarrow> json option list" where
  "keybinding_commands m = map (member_of ''command'') (elements (at_path [''contributes'', ''keybindings''] m))"

definition menu_commands :: "json \<Rightarrow> json option list" where
  "menu_commands m =
     map (member_of ''command'')
       (elements (at_path [''contributes'', ''menus'', ''objectExplorer/item/context''] m))"

definition widget_tasks :: "json \<Rightarrow> json list" where
  "widget_tasks m =
     concat (map (\<lambda>w. elements (at_path [''widget'', ''tasks-widget''] w))
       (concat (map (\<lambda>c. elements (at_path [''container'', ''widgets-container''] c))
          (elements (at_path [''contributes'', ''dashboard.containers''] m)))))"

section \<open>A host for the examples\<close>

text \<open>
  The examples below run the model with this host: the class names are
  \<^verbatim>\<open>task-icon-1\<close>, \<^verbatim>\<open>task-icon-2\<close>, ... and the URI of a path is the path after
  \<^verbatim>\<open>file://\<close>.
\<close>

fun decimal :: "nat \<Rightarrow> string" where
  "decimal n =
     (if n < 10 then [''0123456789'' ! n]
      else decimal (n div 10) @ [''0123456789'' ! (n mod 10)])"

declare decimal.simps [simp del]

definition example_host :: host where
  "example_host =
     \<lparr> nextIdName = (\<lambda>n. ''task-icon-'' @ decimal (Suc n)),
       fileUri = (\<lambda>p. ''file://'' @ p) \<rparr>"

section \<open>The Task class wraps its options\<close>

text \<open>
  C5. The \<^verbatim>\<open>ITask\<close> made from a \<^verbatim>\<open>Task\<close> constructed with \<open>opts\<close> has the id,
  title, iconPath, iconClass and description of \<open>opts\<close>, and the
  \<^verbatim>\<open>ICommandAction\<close> made from it has the id, title and iconPath of \<open>opts\<close>.
  The title and the icon path are required in \<open>opts\<close> and optional in the two
  records, where they are present.
\<close>

theorem Task_wraps_options:
  "itask_id (toITask (Task_constructor run opts)) = opts_id opts
   \<and> itask_title (toITask (Task_constructor run opts)) = Some (opts_title opts)
   \<and> itask_iconPath (toITask (Task_constructor run opts)) = Some (opts_iconPath opts)
   \<and> itask_iconClass (toITask (Task_constructor run opts)) = opts_iconClass opts
   \<and> itask_description (toITask (Task_constructor run opts)) = opts_description opts
   \<and> action_id (toCommandAction (Task_constructor run opts)) = opts_id opts
   \<and> action_title (toCommandAction (Task_constructor run opts)) = opts_title opts
   \<and> action_iconPath (toCommandAction (Task_constructor run opts)) = Some (opts_iconPath opts)"
  by (simp add: Task_constructor_def toITask_def toCommandAction_def)

section \<open>What each operation changes\<close>

lemmas host_defs = CommandsRegistry_registerCommand_def command_dispose_def
  MenuRegistry_addCommand_def createCSSRule_def ids_nextId_def fire_def

lemmas array_defs = array_new_def push_def splice_def slice_def

lemmas eval_defs = registerTask_def dispose_def getOrCreateTaskIconClassName_def getTasks_def
  getCommandActionById_def Task_registerTask_def initial_def host_defs array_defs indexOf_def
  truthy_def or_else_def Let_def getTasks_ids_def

subsection \<open>registerTask\<close>

lemma registerTask_tasks: "tasks (snd (registerTask x hdl w)) = tasks w"
  by (simp add: registerTask_def host_defs push_def Let_def split: idOrTask.split)

lemma registerTask_nextAddr: "nextAddr (snd (registerTask x hdl w)) = nextAddr w"
  by (simp add: registerTask_def host_defs push_def Let_def split: idOrTask.split)

lemma registerTask_store:
  "store (snd (registerTask x hdl w))
   = (store w)(tasks w := store w (tasks w) @ [registered_id x])"
  by (simp add: registerTask_def registered_id_def host_defs push_def Let_def
      split: idOrTask.split)

lemma registerTask_fired:
  "fired (snd (registerTask x hdl w))
   = fired w @ [(registered_id x, store w (tasks w) @ [registered_id x])]"
  by (simp add: registerTask_def registered_id_def host_defs push_def Let_def
      split: idOrTask.split)

lemma registerTask_menuCommands: "menuCommands (snd (registerTask x hdl w)) = menuCommands w"
  by (simp add: registerTask_def host_defs push_def Let_def split: idOrTask.split)

lemma registerTask_idsUsed: "idsUsed (snd (registerTask x hdl w)) = idsUsed w"
  by (simp add: registerTask_def host_defs push_def Let_def split: idOrTask.split)

lemma registerTask_cssRules: "cssRules (snd (registerTask x hdl w)) = cssRules w"
  by (simp add: registerTask_def host_defs push_def Let_def split: idOrTask.split)

lemma registerTask_disp_id: "disp_id (fst (registerTask x hdl w)) = registered_id x"
  by (simp add: registerTask_def registered_id_def host_defs push_def Let_def
      split: idOrTask.split)

lemma registerTask_iconClassMap:
  "taskIdToIconClassNameMap (snd (registerTask x hdl w)) =
     (case x of
        IsString s \<Rightarrow> taskIdToIconClassNameMap w
      | IsTask t \<Rightarrow>
          if truthy (itask_iconClass t)
          then (taskIdToIconClassNameMap w)(itask_id t \<mapsto> the (itask_iconClass t))
          else taskIdToIconClassNameMap w)"
  by (simp add: registerTask_def host_defs push_def Let_def split: idOrTask.split)

lemma registerTask_commandActionMap:
  "taskIdToCommandActionMap (snd (registerTask x hdl w)) =
     (case x of
        IsString s \<Rightarrow> taskIdToCommandActionMap w
      | IsTask t \<Rightarrow>
          if itask_iconPath t \<noteq> None \<and> truthy (itask_title t)
          then (taskIdToCommandActionMap w)(itask_id t \<mapsto>
                  \<lparr> action_iconPath = itask_iconPath t, action_id = itask_id t,
                    action_title = the (itask_title t) \<rparr>)
          else taskIdToCommandActionMap w)"
  by (simp add: registerTask_def host_defs push_def Let_def split: idOrTask.split)

lemma Task_registerTask_eq:
  "Task_registerTask t b w =
     registerTask (IsTask (toITask t)) None
       (if b = Some False then w else MenuRegistry_addCommand (toCommandAction t) w)"
  by (cases b) (auto simp add: Task_registerTask_def)

subsection \<open>getTasks\<close>

lemma getTasks_eq:
  "getTasks w =
     (nextAddr w,
      w\<lparr>store := (store w)(nextAddr w := store w (tasks w)), nextAddr := Suc (nextAddr w)\<rparr>)"
  by (simp add: getTasks_def slice_def array_new_def)

lemma getTasks_ids_eq: "getTasks_ids w = store w (tasks w)"
  by (simp add: getTasks_ids_def getTasks_eq)

subsection \<open>indexOf and dispose\<close>

lemma indexOfFrom_absent: "x \<notin> set xs \<Longrightarrow> indexOfFrom xs x k = -1"
  by (induction xs arbitrary: k) auto

lemma indexOfFrom_present:
  "x \<in> set xs \<Longrightarrow>
     k \<le> indexOfFrom xs x k \<and> indexOfFrom xs x k < k + int (length xs)
     \<and> xs ! nat (indexOfFrom xs x k - k) = x"
proof (induction xs arbitrary: k)
  case Nil
  then show ?case by simp
next
  case (Cons y ys)
  show ?case
  proof (cases "y = x")
    case True
    then show ?thesis by simp
  next
    case False
    with Cons.prems have "x \<in> set ys" by simp
    from Cons.IH [OF this, of "k + 1"]
    have lo: "k + 1 \<le> indexOfFrom ys x (k + 1)"
      and hi: "indexOfFrom ys x (k + 1) < k + 1 + int (length ys)"
      and at: "ys ! nat (indexOfFrom ys x (k + 1) - (k + 1)) = x"
      by simp_all
    from lo have "nat (indexOfFrom ys x (k + 1) - k)
        = Suc (nat (indexOfFrom ys x (k + 1) - (k + 1)))"
      by linarith
    with lo hi at False show ?thesis by simp
  qed
qed

lemma indexOf_present:
  assumes "x \<in> set xs"
  shows "0 \<le> indexOf xs x" and "nat (indexOf xs x) < length xs"
    and "xs ! nat (indexOf xs x) = x"
proof -
  from indexOfFrom_present [OF assms, of 0]
  have a: "0 \<le> indexOfFrom xs x 0" and b: "indexOfFrom xs x 0 < int (length xs)"
    and c: "xs ! nat (indexOfFrom xs x 0) = x"
    by simp_all
  show "0 \<le> indexOf xs x" using a by (simp add: indexOf_def)
  show "nat (indexOf xs x) < length xs" using a b by (simp add: indexOf_def)
  show "xs ! nat (indexOf xs x) = x" using c by (simp add: indexOf_def)
qed

text \<open>
  \<^verbatim>\<open>this._tasks = this._tasks.splice(index, 1)\<close> stores the array of the removed
  elements: when the id is in the list, the list that is left holds the id alone,
  whatever it held before.
\<close>

lemma dispose_of_present_id:
  assumes "disp_id d \<in> set (getTasks_ids w)"
  shows "getTasks_ids (dispose d w) = [disp_id d]"
proof -
  from assms have m: "disp_id d \<in> set (store w (tasks w))"
    by (simp add: getTasks_ids_eq)
  note i = indexOf_present(1) [OF m] and l = indexOf_present(2) [OF m]
    and n = indexOf_present(3) [OF m]
  from l have "take 1 (drop (nat (indexOf (store w (tasks w)) (disp_id d))) (store w (tasks w)))
     = [store w (tasks w) ! nat (indexOf (store w (tasks w)) (disp_id d))]"
    by (simp add: take_Suc_conv_app_nth Cons_nth_drop_Suc [symmetric])
  with i n show ?thesis
    by (simp add: getTasks_ids_eq dispose_def splice_def array_new_def command_dispose_def
        Let_def)
qed

lemma dispose_of_absent_id:
  assumes "disp_id d \<notin> set (getTasks_ids w)"
  shows "getTasks_ids (dispose d w) = getTasks_ids w"
proof -
  from assms have "indexOfFrom (store w (tasks w)) (disp_id d) 0 = -1"
    by (simp add: getTasks_ids_eq indexOfFrom_absent)
  then show ?thesis
    by (simp add: getTasks_ids_eq dispose_def indexOf_def command_dispose_def Let_def)
qed

lemma dispose_iconClassMap:
  "taskIdToIconClassNameMap (dispose d w) = taskIdToIconClassNameMap w"
  by (simp add: dispose_def splice_def array_new_def command_dispose_def Let_def)

subsection \<open>getOrCreateTaskIconClassName\<close>

lemma getOrCreate_known_id:
  "taskIdToIconClassNameMap w (action_id item) = Some c \<Longrightarrow>
     getOrCreateTaskIconClassName h item w = (Some c, w)"
  by (simp add: getOrCreateTaskIconClassName_def)

lemma getOrCreate_keeps_entries:
  "taskIdToIconClassNameMap w i = Some c \<Longrightarrow>
     taskIdToIconClassNameMap (snd (getOrCreateTaskIconClassName h item w)) i = Some c"
  by (auto simp add: getOrCreateTaskIconClassName_def host_defs Let_def split: option.split)

lemma getOrCreate_twice:
  assumes "action_iconPath item \<noteq> None"
  shows "fst (getOrCreateTaskIconClassName h item w) \<noteq> None
     \<and> getOrCreateTaskIconClassName h item (snd (getOrCreateTaskIconClassName h item w))
         = (fst (getOrCreateTaskIconClassName h item w),
            snd (getOrCreateTaskIconClassName h item w))"
  using assms
  by (auto simp add: getOrCreateTaskIconClassName_def host_defs Let_def split: option.splits)

subsection \<open>The array of task ids stays allocated\<close>

lemma allocated_initial: "allocated initial"
  by (simp add: allocated_def initial_def)

lemma allocated_exec:
  assumes "allocated w"
  shows "allocated (exec h w call)"
proof (cases call)
  case (CallRegisterTask x hdl)
  with assms show ?thesis
    by (simp add: allocated_def registerTask_tasks registerTask_nextAddr)
next
  case (CallTaskRegisterTask t b)
  with assms show ?thesis
    by (simp add: Task_registerTask_eq allocated_def registerTask_tasks registerTask_nextAddr
        MenuRegistry_addCommand_def)
next
  case (CallDispose d)
  with assms show ?thesis
    by (simp add: allocated_def dispose_def splice_def array_new_def command_dispose_def Let_def)
next
  case (CallGetOrCreateTaskIconClassName item)
  with assms show ?thesis
    by (auto simp add: allocated_def getOrCreateTaskIconClassName_def host_defs Let_def
        split: option.splits)
next
  case CallGetTasks
  with assms show ?thesis by (simp add: allocated_def getTasks_eq)
qed

lemma allocated_run: "allocated w \<Longrightarrow> allocated (run h calls w)"
  unfolding run_def by (induction calls arbitrary: w) (simp_all add: allocated_exec)

lemma allocated_array_mutate: "allocated w \<Longrightarrow> allocated (array_mutate a f w)"
  by (simp add: allocated_def array_mutate_def)

subsection \<open>An icon class stays registered\<close>

lemma exec_keeps_iconClass:
  assumes "taskIdToIconClassNameMap w i = Some c"
    and "\<not> registers_other_iconClass i c call"
  shows "taskIdToIconClassNameMap (exec h w call) i = Some c"
proof (cases call)
  case (CallRegisterTask x hdl)
  with assms show ?thesis
    by (cases x) (auto simp add: registerTask_iconClassMap truthy_def split: option.splits)
next
  case (CallTaskRegisterTask t b)
  with assms show ?thesis
    by (auto simp add: Task_registerTask_eq registerTask_iconClassMap
        MenuRegistry_addCommand_def toITask_def truthy_def split: option.splits)
next
  case (CallDispose d)
  with assms show ?thesis by (simp add: dispose_iconClassMap)
next
  case (CallGetOrCreateTaskIconClassName item)
  with assms show ?thesis by (simp add: getOrCreate_keeps_entries)
next
  case CallGetTasks
  with assms show ?thesis by (simp add: getTasks_eq)
qed

lemma run_keeps_iconClass:
  assumes "taskIdToIconClassNameMap w i = Some c"
    and "\<forall>call \<in> set calls. \<not> registers_other_iconClass i c call"
  shows "taskIdToIconClassNameMap (run h calls w) i = Some c"
  using assms unfolding run_def
proof (induction calls arbitrary: w)
  case Nil
  then show ?case by simp
next
  case (Cons call calls)
  from Cons.prems have "taskIdToIconClassNameMap (exec h w call) i = Some c"
    by (simp add: exec_keeps_iconClass)
  with Cons show ?case by simp
qed

section \<open>Disposing a registration\<close>

text \<open>
  C1. Disposing the registration of an id should remove the id from the list that
  \<^verbatim>\<open>getTasks()\<close> returns and leave the other ids. The code does the opposite:
  with \<^verbatim>\<open>a\<close> and then \<^verbatim>\<open>b\<close> registered, disposing the registration of \<^verbatim>\<open>a\<close> leaves
  the list \<^verbatim>\<open>[a]\<close>; \<^verbatim>\<open>b\<close> is gone and \<^verbatim>\<open>a\<close> is still there (see
  \<open>dispose_of_present_id\<close> for any state).
\<close>

theorem dispose_leaves_only_disposed_id:
  "getTasks_ids
     (dispose (fst (registerTask (IsString ''a'') None (initial :: unit world)))
        (snd (registerTask (IsString ''b'') None
           (snd (registerTask (IsString ''a'') None (initial :: unit world))))))
   = [''a'']"
  by (simp add: eval_defs)

section \<open>Registering a task and looking it up\<close>

text \<open>
  A task whose title is the empty string has a title, and the condition
  \<^verbatim>\<open>idOrTask.iconPath && idOrTask.title\<close> is false for it: no command action is stored.
\<close>

theorem empty_title_counterexample:
  "itask_iconPath \<lparr> itask_id = ''a'', handler = (), precondition = None, itask_description = None,
       itask_iconClass = None, itask_iconPath = Some \<lparr> dark = ''d.svg'', light = None \<rparr>,
       itask_title = Some [] \<rparr> \<noteq> None
   \<and> itask_title \<lparr> itask_id = ''a'', handler = (), precondition = None, itask_description = None,
       itask_iconClass = None, itask_iconPath = Some \<lparr> dark = ''d.svg'', light = None \<rparr>,
       itask_title = Some [] \<rparr> \<noteq> None
   \<and> getCommandActionById ''a''
       (snd (registerTask
          (IsTask \<lparr> itask_id = ''a'', handler = (), precondition = None, itask_description = None,
             itask_iconClass = None, itask_iconPath = Some \<lparr> dark = ''d.svg'', light = None \<rparr>,
             itask_title = Some [] \<rparr>) None initial)) = None"
  by (simp add: eval_defs)

text \<open>
  C2. For every \<^verbatim>\<open>ITask\<close> \<open>t\<close> whose iconPath is set and whose title is set
  and not the empty string, after \<^verbatim>\<open>registerTask(t)\<close> the list of \<^verbatim>\<open>getTasks()\<close>
  contains the id of \<open>t\<close>, and \<^verbatim>\<open>getCommandActionById\<close> at that id returns a command
  action whose id, title and iconPath are those of \<open>t\<close>.
\<close>

theorem registerTask_then_lookup:
  assumes "itask_iconPath t \<noteq> None" and "truthy (itask_title t)"
  shows "itask_id t \<in> set (getTasks_ids (snd (registerTask (IsTask t) hdl w)))
     \<and> (case getCommandActionById (itask_id t) (snd (registerTask (IsTask t) hdl w)) of
          None \<Rightarrow> False
        | Some a \<Rightarrow> action_id a = itask_id t \<and> Some (action_title a) = itask_title t
            \<and> action_iconPath a = itask_iconPath t)"
  using assms
  by (auto simp add: getTasks_ids_eq registerTask_store registerTask_tasks registered_id_def
      getCommandActionById_def registerTask_commandActionMap truthy_def split: option.splits)

theorem registerTask_then_lookup_witness:
  "''a'' \<in> set (getTasks_ids (snd (registerTask
       (IsTask \<lparr> itask_id = ''a'', handler = (), precondition = None, itask_description = None,
          itask_iconClass = None, itask_iconPath = Some \<lparr> dark = ''d.svg'', light = None \<rparr>,
          itask_title = Some ''Import'' \<rparr>) None initial)))
   \<and> getCommandActionById ''a'' (snd (registerTask
       (IsTask \<lparr> itask_id = ''a'', handler = (), precondition = None, itask_description = None,
          itask_iconClass = None, itask_iconPath = Some \<lparr> dark = ''d.svg'', light = None \<rparr>,
          itask_title = Some ''Import'' \<rparr>) None initial))
     = Some \<lparr> action_iconPath = Some \<lparr> dark = ''d.svg'', light = None \<rparr>, action_id = ''a'',
         action_title = ''Import'' \<rparr>"
  using registerTask_then_lookup [of
      "\<lparr> itask_id = ''a'', handler = (), precondition = None, itask_description = None,
         itask_iconClass = None, itask_iconPath = Some \<lparr> dark = ''d.svg'', light = None \<rparr>,
         itask_title = Some ''Import'' \<rparr>" None initial]
  by (simp add: eval_defs)

section \<open>Icon class names\<close>

text \<open>
  C3. \<^verbatim>\<open>getOrCreateTaskIconClassName\<close> is idempotent: for an item with an iconPath, the
  first call returns a class name, and a second call with the same item returns the
  same class name and changes nothing: no id is generated, no CSS rule is created, the
  map from ids to icon classes is the same.
\<close>

theorem getOrCreate_idempotent:
  assumes "action_iconPath item \<noteq> None"
    and "getOrCreateTaskIconClassName h item w = (c1, w1)"
    and "getOrCreateTaskIconClassName h item w1 = (c2, w2)"
  shows "c1 \<noteq> None \<and> c2 = c1 \<and> idsUsed w2 = idsUsed w1 \<and> cssRules w2 = cssRules w1
     \<and> taskIdToIconClassNameMap w2 = taskIdToIconClassNameMap w1 \<and> w2 = w1"
proof -
  from assms(2) have "c1 = fst (getOrCreateTaskIconClassName h item w)"
    and "w1 = snd (getOrCreateTaskIconClassName h item w)"
    by simp_all
  with getOrCreate_twice [OF assms(1), of h w] assms(3) show ?thesis by simp
qed

theorem getOrCreate_idempotent_witness:
  "getOrCreateTaskIconClassName example_host
     \<lparr> action_iconPath = Some \<lparr> dark = ''dark.svg'', light = Some ''light.svg'' \<rparr>,
       action_id = ''a'', action_title = ''Import'' \<rparr> (initial :: unit world)
   = (Some ''task-icon-1'',
      initial
        \<lparr> taskIdToIconClassNameMap := [''a'' \<mapsto> ''task-icon-1''],
          idsUsed := 1,
          cssRules :=
            [(''.icon.task-icon-1'',
              ''background-image: url('' @ [CHR 0x22] @ ''file://light.svg'' @ [CHR 0x22] @ '')''),
             (''.vs-dark .icon.task-icon-1, .hc-black .icon.task-icon-1'',
              ''background-image: url('' @ [CHR 0x22] @ ''file://dark.svg'' @ [CHR 0x22] @ '')'')] \<rparr>)
   \<and> getOrCreateTaskIconClassName example_host
     \<lparr> action_iconPath = Some \<lparr> dark = ''dark.svg'', light = Some ''light.svg'' \<rparr>,
       action_id = ''a'', action_title = ''Import'' \<rparr>
     (snd (getOrCreateTaskIconClassName example_host
        \<lparr> action_iconPath = Some \<lparr> dark = ''dark.svg'', light = Some ''light.svg'' \<rparr>,
          action_id = ''a'', action_title = ''Import'' \<rparr> (initial :: unit world)))
   = (Some ''task-icon-1'',
      snd (getOrCreateTaskIconClassName example_host
        \<lparr> action_iconPath = Some \<lparr> dark = ''dark.svg'', light = Some ''light.svg'' \<rparr>,
          action_id = ''a'', action_title = ''Import'' \<rparr> (initial :: unit world)))"
proof -
  have first: "getOrCreateTaskIconClassName example_host
     \<lparr> action_iconPath = Some \<lparr> dark = ''dark.svg'', light = Some ''light.svg'' \<rparr>,
       action_id = ''a'', action_title = ''Import'' \<rparr> (initial :: unit world)
   = (Some ''task-icon-1'',
      initial
        \<lparr> taskIdToIconClassNameMap := [''a'' \<mapsto> ''task-icon-1''],
          idsUsed := 1,
          cssRules :=
            [(''.icon.task-icon-1'',
              ''background-image: url('' @ [CHR 0x22] @ ''file://light.svg'' @ [CHR 0x22] @ '')''),
             (''.vs-dark .icon.task-icon-1, .hc-black .icon.task-icon-1'',
              ''background-image: url('' @ [CHR 0x22] @ ''file://dark.svg'' @ [CHR 0x22] @ '')'')] \<rparr>)"
    by (simp add: eval_defs example_host_def decimal.simps)
  have path: "action_iconPath
     \<lparr> action_iconPath = Some \<lparr> dark = ''dark.svg'', light = Some ''light.svg'' \<rparr>,
       action_id = ''a'', action_title = ''Import'' \<rparr> \<noteq> None"
    by simp
  from getOrCreate_idempotent [OF path first surjective_pairing] first
  show ?thesis by (simp add: prod_eq_iff)
qed

text \<open>
  A task registered with the empty string as its icon class stores nothing: a later
  call for its id generates a class name and creates two CSS rules. And of two tasks
  registered under one id, the later one decides the icon class.
\<close>

theorem registered_iconClass_counterexample:
  "fst (getOrCreateTaskIconClassName example_host
       \<lparr> action_iconPath = Some \<lparr> dark = ''d.svg'', light = None \<rparr>, action_id = ''a'',
         action_title = ''Import'' \<rparr>
       (snd (registerTask
          (IsTask \<lparr> itask_id = ''a'', handler = (), precondition = None, itask_description = None,
             itask_iconClass = Some [], itask_iconPath = None, itask_title = None \<rparr>)
          None initial))) = Some ''task-icon-1''
   \<and> length (cssRules (snd (getOrCreateTaskIconClassName example_host
       \<lparr> action_iconPath = Some \<lparr> dark = ''d.svg'', light = None \<rparr>, action_id = ''a'',
         action_title = ''Import'' \<rparr>
       (snd (registerTask
          (IsTask \<lparr> itask_id = ''a'', handler = (), precondition = None, itask_description = None,
             itask_iconClass = Some [], itask_iconPath = None, itask_title = None \<rparr>)
          None initial))))) = 2
   \<and> fst (getOrCreateTaskIconClassName example_host
       \<lparr> action_iconPath = None, action_id = ''a'', action_title = ''Import'' \<rparr>
       (snd (registerTask
          (IsTask \<lparr> itask_id = ''a'', handler = (), precondition = None, itask_description = None,
             itask_iconClass = Some ''second'', itask_iconPath = None, itask_title = None \<rparr>)
          None
          (snd (registerTask
             (IsTask \<lparr> itask_id = ''a'', handler = (), precondition = None,
                itask_description = None, itask_iconClass = Some ''first'',
                itask_iconPath = None, itask_title = None \<rparr>)
             None initial))))) = Some ''second''"
  by (simp add: eval_defs example_host_def decimal.simps)

text \<open>
  C4. For every \<^verbatim>\<open>ITask\<close> registered with an icon class that is set and not
  the empty string, any later call of \<^verbatim>\<open>getOrCreateTaskIconClassName\<close> with an item of
  the task's id returns the registered icon class, generates no class name and creates
  no CSS rule (the state after the call is the state before it), whether the item has
  an iconPath or not, as long as no task with the same id and another non-empty icon
  class has been registered in between.
\<close>

theorem registered_iconClass_returned:
  assumes "truthy (itask_iconClass t)"
    and "\<forall>call \<in> set calls.
           \<not> registers_other_iconClass (itask_id t) (the (itask_iconClass t)) call"
    and "action_id item = itask_id t"
  shows "getOrCreateTaskIconClassName h item (run h calls (snd (registerTask (IsTask t) hdl w)))
         = (itask_iconClass t, run h calls (snd (registerTask (IsTask t) hdl w)))"
proof -
  from assms(1) obtain c where c: "itask_iconClass t = Some c"
    by (auto simp add: truthy_def split: option.splits)
  with assms(1)
  have "taskIdToIconClassNameMap (snd (registerTask (IsTask t) hdl w)) (itask_id t) = Some c"
    by (simp add: registerTask_iconClassMap)
  with assms(2) c
  have "taskIdToIconClassNameMap (run h calls (snd (registerTask (IsTask t) hdl w))) (itask_id t)
        = Some c"
    by (simp add: run_keeps_iconClass)
  with assms(3) c show ?thesis by (simp add: getOrCreate_known_id)
qed

theorem registered_iconClass_returned_witness:
  "getOrCreateTaskIconClassName example_host
     \<lparr> action_iconPath = Some \<lparr> dark = ''d.svg'', light = None \<rparr>, action_id = ''a'',
       action_title = ''Import'' \<rparr>
     (run example_host
        [CallGetOrCreateTaskIconClassName
           \<lparr> action_iconPath = Some \<lparr> dark = ''d.svg'', light = None \<rparr>, action_id = ''b'',
             action_title = ''Export'' \<rparr>,
         CallRegisterTask (IsString ''a'') None,
         CallDispose \<lparr> disp_id = ''a'', disp_command = 0 \<rparr>,
         CallGetTasks]
        (snd (registerTask
           (IsTask \<lparr> itask_id = ''a'', handler = (), precondition = None, itask_description = None,
              itask_iconClass = Some ''import-icon'', itask_iconPath = None,
              itask_title = None \<rparr>)
           None initial)))
   = (Some ''import-icon'',
      run example_host
        [CallGetOrCreateTaskIconClassName
           \<lparr> action_iconPath = Some \<lparr> dark = ''d.svg'', light = None \<rparr>, action_id = ''b'',
             action_title = ''Export'' \<rparr>,
         CallRegisterTask (IsString ''a'') None,
         CallDispose \<lparr> disp_id = ''a'', disp_command = 0 \<rparr>,
         CallGetTasks]
        (snd (registerTask
           (IsTask \<lparr> itask_id = ''a'', handler = (), precondition = None, itask_description = None,
              itask_iconClass = Some ''import-icon'', itask_iconPath = None,
              itask_title = None \<rparr>)
           None initial)))"
  using registered_iconClass_returned [of
      "\<lparr> itask_id = ''a'', handler = (), precondition = None, itask_description = None,
         itask_iconClass = Some ''import-icon'', itask_iconPath = None, itask_title = None \<rparr>"
      "[CallGetOrCreateTaskIconClassName
           \<lparr> action_iconPath = Some \<lparr> dark = ''d.svg'', light = None \<rparr>, action_id = ''b'',
             action_title = ''Export'' \<rparr>,
         CallRegisterTask (IsString ''a'') None,
         CallDispose \<lparr> disp_id = ''a'', disp_command = 0 \<rparr>,
         CallGetTasks]"
      "\<lparr> action_iconPath = Some \<lparr> dark = ''d.svg'', light = None \<rparr>, action_id = ''a'',
         action_title = ''Import'' \<rparr>"
      example_host None "initial :: unit world"]
  by (simp add: truthy_def)

text \<open>
  C8. For an item whose id has no entry in the map from ids to icon classes and which
  has no iconPath, \<^verbatim>\<open>getOrCreateTaskIconClassName\<close> returns \<^verbatim>\<open>null\<close> and the state
  after the call is the state before it.
\<close>

theorem getOrCreate_null:
  assumes "taskIdToIconClassNameMap w (action_id item) = None"
    and "action_iconPath item = None"
  shows "getOrCreateTaskIconClassName h item w = (None, w)"
  using assms by (simp add: getOrCreateTaskIconClassName_def)

theorem getOrCreate_null_witness:
  "taskIdToIconClassNameMap (initial :: unit world) ''a'' = None
   \<and> getOrCreateTaskIconClassName example_host
       \<lparr> action_iconPath = None, action_id = ''a'', action_title = ''Import'' \<rparr>
       (initial :: unit world)
     = (None, initial)"
  using getOrCreate_null [of "initial :: unit world"
      "\<lparr> action_iconPath = None, action_id = ''a'', action_title = ''Import'' \<rparr>" example_host]
  by (simp add: initial_def)

section \<open>Task.registerTask and the command palette\<close>

text \<open>
  C6. \<^verbatim>\<open>Task.registerTask\<close> with \<^verbatim>\<open>showInCommandPalette = false\<close> is
  \<^verbatim>\<open>TaskRegistry.registerTask\<close> of the task and makes no call to \<^verbatim>\<open>MenuRegistry\<close>.
  With \<^verbatim>\<open>true\<close>, which is also the default, it first adds the command action of the
  task to \<^verbatim>\<open>MenuRegistry\<close> and then registers the task. In both cases the id of the
  task is appended to the list of task ids.
\<close>

theorem Task_registerTask_palette:
  "Task_registerTask this (Some False) w = registerTask (IsTask (toITask this)) None w
   \<and> menuCommands (snd (Task_registerTask this (Some False) w)) = menuCommands w
   \<and> Task_registerTask this (Some True) w
       = registerTask (IsTask (toITask this)) None
           (MenuRegistry_addCommand (toCommandAction this) w)
   \<and> menuCommands (snd (Task_registerTask this (Some True) w))
       = menuCommands w @ [toCommandAction this]
   \<and> Task_registerTask this None w = Task_registerTask this (Some True) w
   \<and> getTasks_ids (snd (Task_registerTask this (Some False) w)) = getTasks_ids w @ [task_id this]
   \<and> getTasks_ids (snd (Task_registerTask this (Some True) w)) = getTasks_ids w @ [task_id this]"
  by (simp add: Task_registerTask_eq registerTask_menuCommands getTasks_ids_eq registerTask_store
      registerTask_tasks registered_id_def toITask_def MenuRegistry_addCommand_def)

section \<open>The manifest\<close>

text \<open>
  C7. The manifest names the command \<^verbatim>\<open>flatFileImport.start\<close> in its contributed
  commands, its keybindings, the tasks widget of its dashboard container and its
  context menu, and its extension dependencies are \<^verbatim>\<open>Microsoft.mssql\<close>.
\<close>

theorem manifest_names_command:
  "contributed_commands manifest = [Some (JString ''flatFileImport.start'')]
   \<and> keybinding_commands manifest = [Some (JString ''flatFileImport.start'')]
   \<and> widget_tasks manifest = [JString ''flatFileImport.start'']
   \<and> menu_commands manifest = [Some (JString ''flatFileImport.start'')]
   \<and> member_of ''extensionDependencies'' manifest = Some (JArray [JString ''Microsoft.mssql''])"
  by (simp add: contributed_commands_def keybinding_commands_def widget_tasks_def
      menu_commands_def manifest_def member_of_def elements_def)

section \<open>getTasks returns a copy\<close>

text \<open>
  C9. \<^verbatim>\<open>getTasks\<close> changes no field of the registry: the reference \<^verbatim>\<open>_tasks\<close> and
  the array it points to, the deliveries of the emitter and the two maps are the same
  after the call (and so are the calls made to the host). The array it returns holds
  the registered ids, and whatever a caller does to that array, the next
  \<^verbatim>\<open>getTasks\<close> returns the same ids again.
\<close>

theorem getTasks_snapshot:
  assumes "allocated w"
  shows "tasks (snd (getTasks w)) = tasks w
     \<and> store (snd (getTasks w)) (tasks w) = store w (tasks w)
     \<and> fired (snd (getTasks w)) = fired w
     \<and> taskIdToIconClassNameMap (snd (getTasks w)) = taskIdToIconClassNameMap w
     \<and> taskIdToCommandActionMap (snd (getTasks w)) = taskIdToCommandActionMap w
     \<and> idsUsed (snd (getTasks w)) = idsUsed w
     \<and> cssRules (snd (getTasks w)) = cssRules w
     \<and> commands (snd (getTasks w)) = commands w
     \<and> menuCommands (snd (getTasks w)) = menuCommands w
     \<and> store (snd (getTasks w)) (fst (getTasks w)) = store w (tasks w)
     \<and> getTasks_ids (array_mutate (fst (getTasks w)) f (snd (getTasks w))) = store w (tasks w)"
  using assms
  by (simp add: getTasks_eq getTasks_ids_eq array_mutate_def allocated_def)

theorem getTasks_snapshot_witness:
  "allocated (snd (registerTask (IsString ''a'') None (initial :: unit world)))
   \<and> getTasks_ids (snd (registerTask (IsString ''a'') None (initial :: unit world))) = [''a'']
   \<and> getTasks_ids
        (array_mutate
           (fst (getTasks (snd (registerTask (IsString ''a'') None (initial :: unit world)))))
           (\<lambda>xs. [])
           (snd (getTasks (snd (registerTask (IsString ''a'') None (initial :: unit world))))))
       = [''a'']"
  using getTasks_snapshot
    [of "snd (registerTask (IsString ''a'') None (initial :: unit world))" "\<lambda>xs. []"]
  by (simp add: eval_defs allocated_def)

section \<open>Registering appends and notifies\<close>

text \<open>
  C10. Every call of \<^verbatim>\<open>TaskRegistry.registerTask\<close>, with an id or with a task, appends
  the id to the list of task ids, whether the id is in the list or not, and fires
  \<^verbatim>\<open>onTaskRegistered\<close> once, with that id, when the list already ends with it.
  Registering the same thing twice puts its id into the list twice.
\<close>

theorem registerTask_appends_and_fires:
  "getTasks_ids (snd (registerTask x hdl w)) = getTasks_ids w @ [registered_id x]
   \<and> fired (snd (registerTask x hdl w))
       = fired w @ [(registered_id x, getTasks_ids w @ [registered_id x])]
   \<and> getTasks_ids (snd (registerTask x hdl' (snd (registerTask x hdl w))))
       = getTasks_ids w @ [registered_id x, registered_id x]"
  by (simp add: getTasks_ids_eq registerTask_store registerTask_tasks registerTask_fired)

end
